theory Spec2Isabelle
  imports Main "HOL-Library.Word"
begin

unbundle bit_operations_syntax

section \<open>The pull-sizer webhook (main.go) as a shallow embedding\<close>

text \<open>
  The program is one Go file. Its handler \<open>processHook\<close> authenticates a webhook
  delivery, filters it, sums the changed lines of the pull request over a paginated
  listing, removes every size label and adds the one whose range holds the sum.

  Conventions of the embedding.
  \<^item> Go strings and byte slices are \<open>string\<close> (a list of 8-bit characters).
  \<^item> Go's \<open>int\<close> and \<open>int64\<close> are 64-bit words where the code does arithmetic or
    compares against the size table (the release binary is built for amd64, where
    \<open>int\<close> has 64 bits); addition wraps, comparison is signed. Status codes, page and
    pull request numbers are only compared for equality and passed on; they are \<open>int\<close>.
  \<^item> A Go pointer that the code dereferences is an \<open>option\<close>; dereferencing \<open>None\<close>
    and indexing a slice out of range are the run-time panics of Go, values of
    \<open>outcome\<close>.
  \<^item> A Go \<open>error\<close> result is an \<open>error option\<close> (\<open>None\<close> is \<open>nil\<close>), returned
    next to the other results as in Go.
  \<^item> The GitHub client is a record of functions over an explicit upstream state
    \<open>'w\<close>; every call of the client, and the parsing of the body, is appended to a
    trace.
  \<^item> Packages the program imports but does not contain (the keyed digest of
    crypto/hmac with crypto/sha1, and go-github's payload parser) are parameters,
    the record \<open>Library\<close>.
  \<^item> Go leaves the iteration order of a map unspecified: each \<open>range\<close> over the size
    table takes the order of the keys as an argument.
\<close>

subsection \<open>Data\<close>

type_synonym go_int = "64 word"
type_synonym int64 = "64 word"

datatype error = Error string

datatype panic = NilPointerDereference | IndexOutOfRange

datatype 'a outcome = Returned 'a | Panicked panic

text \<open>\<open>type Size struct { Min int64; Max int64 }\<close>\<close>

record Size =
  Min_size :: int64
  Max_size :: int64

text \<open>\<open>math.MaxInt64\<close>\<close>

definition MaxInt64 :: int64 where
  "MaxInt64 = 9223372036854775807"

text \<open>\<open>type Sizes map[string]Size\<close>, and the table that \<open>init\<close> builds.\<close>

type_synonym Sizes = "string \<rightharpoonup> Size"

definition defaultSizes :: Sizes where
  "defaultSizes =
     [''size/XS'' \<mapsto> \<lparr>Min_size = 0, Max_size = 9\<rparr>,
      ''size/S'' \<mapsto> \<lparr>Min_size = 10, Max_size = 29\<rparr>,
      ''size/M'' \<mapsto> \<lparr>Min_size = 30, Max_size = 99\<rparr>,
      ''size/L'' \<mapsto> \<lparr>Min_size = 100, Max_size = 499\<rparr>,
      ''size/XL'' \<mapsto> \<lparr>Min_size = 500, Max_size = 999\<rparr>,
      ''size/XXL'' \<mapsto> \<lparr>Min_size = 1000, Max_size = MaxInt64\<rparr>]"

text \<open>
  An order in which \<open>for k := range m\<close> may visit the keys of \<open>m\<close>: every key once.
\<close>

definition rangeOrder :: "('k \<rightharpoonup> 'v) \<Rightarrow> 'k list \<Rightarrow> bool" where
  "rangeOrder m ks \<longleftrightarrow> distinct ks \<and> set ks = dom m"

text \<open>The configuration that \<open>main\<close> reads from the environment into globals.\<close>

record Config =
  sharedSecret :: string
  repoOrOrgName :: string
  ghToken :: string

text \<open>The parts of go-github's types that the program reads.\<close>

record Response =
  StatusCode :: int
  Status :: string
  NextPage :: int

record ListOptions =
  Page :: int
  PerPage :: int

record CommitFile =
  Changes :: "go_int option"

record Repository =
  FullName :: "string option"

record PullRequestEvent =
  Action :: "string option"
  Number :: "int option"
  Repo :: "Repository option"

text \<open>
  The three calls of the GitHub client that the program makes, each taking the
  upstream state and returning its results with the new state.
  \<open>AddLabelsToIssue\<close> keeps only the error: the program discards the other results.
\<close>

record 'w Client =
  ListFiles :: "string \<Rightarrow> string \<Rightarrow> int \<Rightarrow> ListOptions \<Rightarrow> 'w
     \<Rightarrow> (CommitFile list \<times> Response option \<times> error option) \<times> 'w"
  RemoveLabelForIssue :: "string \<Rightarrow> string \<Rightarrow> int \<Rightarrow> string \<Rightarrow> 'w
     \<Rightarrow> (Response option \<times> error option) \<times> 'w"
  AddLabelsToIssue :: "string \<Rightarrow> string \<Rightarrow> int \<Rightarrow> string list \<Rightarrow> 'w
     \<Rightarrow> error option \<times> 'w"

text \<open>
  The imported functions that stay parameters: \<open>hmac_sha1 key message\<close> is the digest
  that \<open>hmac.New(sha1.New, key)\<close> yields after writing \<open>message\<close>, and
  \<open>ParseWebHook event body\<close> is go-github's parser, which for the event type
  \<open>pull_request\<close> yields a \<open>PullRequestEvent\<close> or an error.
\<close>

record Library =
  hmac_sha1 :: "string \<Rightarrow> string \<Rightarrow> string"
  ParseWebHook :: "string \<Rightarrow> string \<Rightarrow> error + PullRequestEvent"

text \<open>
  The request: its headers, and what \<open>ioutil.ReadAll\<close> yields for its body.
  \<open>Get\<close> is the header lookup of net/http, the empty string for an absent header.
\<close>

record Request =
  Header :: "string \<rightharpoonup> string"
  Body :: "error + string"

definition Get :: "(string \<rightharpoonup> string) \<Rightarrow> string \<Rightarrow> string" where
  "Get h key = (case h key of None \<Rightarrow> [] | Some v \<Rightarrow> v)"

text \<open>What the handler writes: \<open>c.JSON(status, gin.H{"message": m})\<close>.\<close>

datatype reply = JSON int string | AbortWithStatus int

fun statusOf :: "reply \<Rightarrow> int" where
  "statusOf (JSON status m) = status"
| "statusOf (AbortWithStatus status) = status"

text \<open>The trace: the body being parsed, and every call of the GitHub client.\<close>

datatype call =
    ParseWebHookCall
  | ListFilesCall string string int ListOptions
  | RemoveLabelCall string string int string
  | AddLabelsCall string string int "string list"

subsection \<open>Standard library functions the program calls\<close>

text \<open>\<open>strings.Split(s, sep)\<close> for a separator of one character.\<close>

fun Split :: "string \<Rightarrow> char \<Rightarrow> string list" where
  "Split [] sep = [[]]"
| "Split (c # cs) sep =
     (if c = sep then [] # Split cs sep
      else (case Split cs sep of
              [] \<Rightarrow> [[c]]
            | part # parts \<Rightarrow> (c # part) # parts))"

text \<open>
  Indexing a slice: \<open>xs[i]\<close> panics out of range.
\<close>

definition index :: "'a list \<Rightarrow> nat \<Rightarrow> 'a outcome" where
  "index xs i = (if i < length xs then Returned (xs ! i) else Panicked IndexOutOfRange)"

text \<open>The verb \<open>%x\<close> of fmt on a byte slice: two lowercase hex digits per byte.\<close>

definition hexDigit :: "nat \<Rightarrow> char" where
  "hexDigit n = ''0123456789abcdef'' ! (n mod 16)"

definition hexByte :: "char \<Rightarrow> string" where
  "hexByte c = [hexDigit ((of_char c :: nat) div 16), hexDigit ((of_char c :: nat) mod 16)]"

definition hexString :: "string \<Rightarrow> string" where
  "hexString bs = concat (map hexByte bs)"

text \<open>
  \<open>subtle.ConstantTimeCompare\<close> and \<open>subtle.ConstantTimeByteEq\<close>:
  \<^verbatim>\<open>
  func ConstantTimeCompare(x, y []byte) int {
      if len(x) != len(y) { return 0 }
      var v byte
      for i := 0; i < len(x); i++ { v |= x[i] ^ y[i] }
      return ConstantTimeByteEq(v, 0)
  }
  func ConstantTimeByteEq(x, y uint8) int {
      return int((uint32(x^y) - 1) >> 31)
  }
  \<close>
\<close>

definition byte :: "char \<Rightarrow> 8 word" where
  "byte c = word_of_nat (of_char c)"

fun orXor :: "8 word \<Rightarrow> string \<Rightarrow> string \<Rightarrow> 8 word" where
  "orXor v (x # xs) (y # ys) = orXor (v OR (byte x XOR byte y)) xs ys"
| "orXor v xs ys = v"

definition ConstantTimeByteEq :: "8 word \<Rightarrow> 8 word \<Rightarrow> int" where
  "ConstantTimeByteEq x y = uint (drop_bit 31 ((ucast (x XOR y) :: 32 word) - 1))"

definition ConstantTimeCompare :: "string \<Rightarrow> string \<Rightarrow> int" where
  "ConstantTimeCompare x y =
     (if length x \<noteq> length y then 0 else ConstantTimeByteEq (orXor 0 x y) 0)"

subsection \<open>validateSig\<close>

definition validateSig :: "Library \<Rightarrow> Config \<Rightarrow> string \<Rightarrow> string \<Rightarrow> error option" where
  "validateSig lib cfg sig body =
     (let mac = hmac_sha1 lib (sharedSecret cfg) body;
          checksum = ''sha1='' @ hexString mac
      in if ConstantTimeCompare checksum sig \<noteq> 1
         then Some (Error ''payload signature check failed'')
         else None)"

subsection \<open>readPaginatedFileChanges\<close>

text \<open>
  The inner loop \<open>for _, cf := range cfs { changes += *cf.Changes }\<close>. A file
  without a count (\<open>Changes\<close> is nil) makes the dereference panic; the entries of
  the listing themselves are taken to be present.
\<close>

fun sumChanges :: "go_int \<Rightarrow> CommitFile list \<Rightarrow> go_int outcome" where
  "sumChanges changes [] = Returned changes"
| "sumChanges changes (cf # cfs) =
     (case Changes cf of
        None \<Rightarrow> Panicked NilPointerDereference
      | Some n \<Rightarrow> sumChanges (changes + n) cfs)"

text \<open>
  The outer loop \<open>for { ... }\<close>. It runs for as long as the upstream names a next
  page, so it is a partial function: \<open>None\<close> is the loop that never ends.
\<close>

partial_function (option) readLoop ::
  "'w Client \<Rightarrow> string \<Rightarrow> string \<Rightarrow> int \<Rightarrow> ListOptions \<Rightarrow> go_int \<Rightarrow> call list \<Rightarrow> 'w
     \<Rightarrow> ((go_int \<times> error option) outcome \<times> call list \<times> 'w) option" where
  "readLoop client owner repo number opts changes tr w =
     (case ListFiles client owner repo number opts w of
        ((cfs, resp, err), w') \<Rightarrow>
          (let tr' = tr @ [ListFilesCall owner repo number opts] in
           case err of
             Some e \<Rightarrow> Some (Returned (0, Some e), tr', w')
           | None \<Rightarrow>
               (case resp of
                  None \<Rightarrow> Some (Panicked NilPointerDereference, tr', w')
                | Some r \<Rightarrow>
                    if StatusCode r \<noteq> 200
                    then Some (Returned (0, Some (Error
                           (''Unable to get changed files. Status code: '' @ Status r))), tr', w')
                    else (case sumChanges changes cfs of
                            Panicked p \<Rightarrow> Some (Panicked p, tr', w')
                          | Returned changes' \<Rightarrow>
                              if NextPage r = 0
                              then Some (Returned (changes', None), tr', w')
                              else readLoop client owner repo number
                                     (opts\<lparr>Page := NextPage r\<rparr>) changes' tr' w'))))"

definition readPaginatedFileChanges ::
  "'w Client \<Rightarrow> string \<Rightarrow> string \<Rightarrow> int \<Rightarrow> 'w
     \<Rightarrow> ((go_int \<times> error option) outcome \<times> call list \<times> 'w) option" where
  "readPaginatedFileChanges client owner repo number w =
     readLoop client owner repo number \<lparr>Page = 0, PerPage = 100\<rparr> 0 [] w"

subsection \<open>updateLabel\<close>

text \<open>\<open>emit c r\<close> puts the call \<open>c\<close> in front of the trace of the result \<open>r\<close>.\<close>

definition emit :: "call \<Rightarrow> 'a \<times> call list \<times> 'w \<Rightarrow> 'a \<times> call list \<times> 'w" where
  "emit c r = (case r of (out, tr, w) \<Rightarrow> (out, c # tr, w))"

text \<open>
  The first loop, \<open>for k := range defaultSizes\<close>, over the keys in the order \<open>ks\<close>.
  The status code of the response is read before the error is looked at.
  \<open>Returned (Some e)\<close> is the early \<open>return "", err\<close>; \<open>Returned None\<close> is the loop
  running to its end.
\<close>

fun removeLoop ::
  "'w Client \<Rightarrow> string \<Rightarrow> string \<Rightarrow> int \<Rightarrow> string list \<Rightarrow> 'w
     \<Rightarrow> error option outcome \<times> call list \<times> 'w" where
  "removeLoop client owner repo number [] w = (Returned None, [], w)"
| "removeLoop client owner repo number (k # ks) w =
     (case RemoveLabelForIssue client owner repo number k w of
        ((res, err), w') \<Rightarrow>
          (case res of
             None \<Rightarrow> (Panicked NilPointerDereference, [RemoveLabelCall owner repo number k], w')
           | Some r \<Rightarrow>
               if StatusCode r = 404
               then emit (RemoveLabelCall owner repo number k)
                      (removeLoop client owner repo number ks w')
               else (case err of
                       Some e \<Rightarrow> (Returned (Some e), [RemoveLabelCall owner repo number k], w')
                     | None \<Rightarrow> emit (RemoveLabelCall owner repo number k)
                                (removeLoop client owner repo number ks w'))))"

text \<open>
  The second loop, \<open>for k, v := range defaultSizes\<close>, over the keys in the order
  \<open>ks\<close>: the first key whose range holds the count is added and returned.
  A name that is not a key of the table has no entry and is passed over (no such
  name is in an order of the table's keys).
\<close>

fun addLoop ::
  "'w Client \<Rightarrow> string \<Rightarrow> string \<Rightarrow> int \<Rightarrow> go_int \<Rightarrow> string list \<Rightarrow> 'w
     \<Rightarrow> (string \<times> error option) outcome \<times> call list \<times> 'w" where
  "addLoop client owner repo number changes [] w = (Returned ([], None), [], w)"
| "addLoop client owner repo number changes (k # ks) w =
     (case defaultSizes k of
        None \<Rightarrow> addLoop client owner repo number changes ks w
      | Some v \<Rightarrow>
          (let c64 = changes in
           if sint (Min_size v) \<le> sint c64 \<and> sint c64 \<le> sint (Max_size v)
           then (case AddLabelsToIssue client owner repo number [k] w of
                   (err, w') \<Rightarrow> (Returned (k, err), [AddLabelsCall owner repo number [k]], w'))
           else addLoop client owner repo number changes ks w))"

definition updateLabel ::
  "'w Client \<Rightarrow> string list \<Rightarrow> string list \<Rightarrow> string \<Rightarrow> string \<Rightarrow> int \<Rightarrow> go_int \<Rightarrow> 'w
     \<Rightarrow> (string \<times> error option) outcome \<times> call list \<times> 'w" where
  "updateLabel client order1 order2 owner repo number changes w =
     (case removeLoop client owner repo number order1 w of
        (Panicked p, tr, w') \<Rightarrow> (Panicked p, tr, w')
      | (Returned (Some e), tr, w') \<Rightarrow> (Returned ([], Some e), tr, w')
      | (Returned None, tr, w') \<Rightarrow>
          (case addLoop client owner repo number changes order2 w' of
             (out, tr2, w'') \<Rightarrow> (out, tr @ tr2, w'')))"

subsection \<open>processHook\<close>

text \<open>
  The handler, in three parts that follow one another in the source.
  \<open>processHook\<close> is the handler up to the parsed payload (signature, body, event
  type, parsing); it continues with \<open>processPayload\<close>, the repository check and the
  action filter; that continues with \<open>sizePullRequest\<close>, the listing and the
  labelling (from the comment \<open>// Get changes\<close> to the end of the handler).
  The result is \<open>None\<close> when the listing loop never ends; otherwise it is the reply
  written (or the panic raised), the trace and the upstream state.
  The type assertion \<open>e.(*github.PullRequestEvent)\<close> cannot fail: the parser is only
  called for the event type \<open>pull_request\<close>. Log lines are not modelled.
\<close>

definition sizePullRequest ::
  "'w Client \<Rightarrow> string list \<Rightarrow> string list \<Rightarrow> string list \<Rightarrow> PullRequestEvent \<Rightarrow> 'w
     \<Rightarrow> (reply outcome \<times> call list \<times> 'w) option" where
  "sizePullRequest client order1 order2 repoSplit payload w =
     (case index repoSplit 0 of
        Panicked p \<Rightarrow> Some (Panicked p, [], w)
      | Returned repo0 \<Rightarrow>
     (case index repoSplit 1 of
        Panicked p \<Rightarrow> Some (Panicked p, [], w)
      | Returned repo1 \<Rightarrow>
     (case Number payload of
        None \<Rightarrow> Some (Panicked NilPointerDereference, [], w)
      | Some number \<Rightarrow>
     (case readPaginatedFileChanges client repo0 repo1 number w of
        None \<Rightarrow> None
      | Some (Panicked p, tr, w1) \<Rightarrow> Some (Panicked p, tr, w1)
      | Some (Returned (changes, Some err), tr, w1) \<Rightarrow>
          Some (Returned (JSON 400 ''Error reading PR changes''), tr, w1)
      | Some (Returned (changes, None), tr, w1) \<Rightarrow>
          (case updateLabel client order1 order2 repo0 repo1 number changes w1 of
             (Panicked p, tr2, w2) \<Rightarrow> Some (Panicked p, tr @ tr2, w2)
           | (Returned (label, Some err), tr2, w2) \<Rightarrow>
               Some (Returned (JSON 500 ''Error processing request (1)''), tr @ tr2, w2)
           | (Returned (label, None), tr2, w2) \<Rightarrow>
               Some (Returned (JSON 200 ''Success''), tr @ tr2, w2))))))"

definition processPayload ::
  "Config \<Rightarrow> 'w Client \<Rightarrow> string list \<Rightarrow> string list \<Rightarrow> PullRequestEvent \<Rightarrow> 'w
     \<Rightarrow> (reply outcome \<times> call list \<times> 'w) option" where
  "processPayload cfg client order1 order2 payload w =
     (case Repo payload of
        None \<Rightarrow> Some (Panicked NilPointerDereference, [], w)
      | Some repository \<Rightarrow>
     (case FullName repository of
        None \<Rightarrow> Some (Panicked NilPointerDereference, [], w)
      | Some fullName \<Rightarrow>
     (let repoSplit = Split fullName (CHR ''/'');
          checkSplit = Split (repoOrOrgName cfg) (CHR ''/'')
      in
     (case index repoSplit 0 of
        Panicked p \<Rightarrow> Some (Panicked p, [], w)
      | Returned repo0 \<Rightarrow>
     (case index checkSplit 0 of
        Panicked p \<Rightarrow> Some (Panicked p, [], w)
      | Returned check0 \<Rightarrow>
     if repo0 \<noteq> check0
     then Some (Returned (JSON 403 ''Not configured for this repository''), [], w)
     else
     (case (if length checkSplit > 1
            then (case index repoSplit 1 of
                    Panicked p \<Rightarrow> Panicked p
                  | Returned repo1 \<Rightarrow>
                      (case index checkSplit 1 of
                         Panicked p \<Rightarrow> Panicked p
                       | Returned check1 \<Rightarrow> Returned (repo1 \<noteq> check1)))
            else Returned False) of
        Panicked p \<Rightarrow> Some (Panicked p, [], w)
      | Returned True \<Rightarrow>
          Some (Returned (JSON 403 ''Not configured for this repository''), [], w)
      | Returned False \<Rightarrow>
     (case Action payload of
        None \<Rightarrow> Some (Panicked NilPointerDereference, [], w)
      | Some action \<Rightarrow>
     if action \<noteq> ''opened'' \<and> action \<noteq> ''synchronize'' \<and> action \<noteq> ''reopened''
     then Some (Returned (JSON 200 ''Skipping action''), [], w)
     else sizePullRequest client order1 order2 repoSplit payload w)))))))"

definition processHook ::
  "Library \<Rightarrow> Config \<Rightarrow> 'w Client \<Rightarrow> string list \<Rightarrow> string list \<Rightarrow> Request \<Rightarrow> 'w
     \<Rightarrow> (reply outcome \<times> call list \<times> 'w) option" where
  "processHook lib cfg client order1 order2 req w =
     (let sig = Get (Header req) ''X-Hub-Signature'' in
      if sig = []
      then Some (Returned (JSON 400 ''Missing X-Hub-Signature''), [], w)
      else
        (case Body req of
           Inl err \<Rightarrow> Some (Returned (JSON 400 ''Malformed body''), [], w)
         | Inr body \<Rightarrow>
             if validateSig lib cfg sig body \<noteq> None
             then Some (Returned (JSON 403 ''Validating payload against signature failed''), [], w)
             else
               (let event = Get (Header req) ''X-GitHub-Event'' in
                if event \<noteq> ''pull_request''
                then Some (Returned (JSON 200 ''Skipping event type''), [], w)
                else
                  (case ParseWebHook lib event body of
                     Inl err \<Rightarrow>
                       Some (Returned (JSON 400 ''Malformed body''), [ParseWebHookCall], w)
                   | Inr payload \<Rightarrow>
                       map_option (emit ParseWebHookCall)
                         (processPayload cfg client order1 order2 payload w)))))"

text \<open>
  \<open>main\<close> registers the handler behind \<open>gin.Recovery()\<close>, which turns a panic of the
  handler into the status 500.
\<close>

definition Recovery :: "reply outcome \<Rightarrow> reply" where
  "Recovery out = (case out of Returned r \<Rightarrow> r | Panicked p \<Rightarrow> AbortWithStatus 500)"

definition webhook ::
  "Library \<Rightarrow> Config \<Rightarrow> 'w Client \<Rightarrow> string list \<Rightarrow> string list \<Rightarrow> Request \<Rightarrow> 'w
     \<Rightarrow> (reply \<times> call list \<times> 'w) option" where
  "webhook lib cfg client order1 order2 req w =
     map_option (\<lambda>(out, tr, w'). (Recovery out, tr, w'))
       (processHook lib cfg client order1 order2 req w)"

section \<open>Notions the properties are stated with\<close>

text \<open>
  The signature GitHub sends for a body: \<open>sha1=\<close> followed by the digest of the
  body under the secret, in lowercase hex.
\<close>

definition sign :: "Library \<Rightarrow> string \<Rightarrow> string \<Rightarrow> string" where
  "sign lib secret body = ''sha1='' @ hexString (hmac_sha1 lib secret body)"

text \<open>A delivery as GitHub sends it: the body, its signature and the event type.\<close>

definition delivery :: "Library \<Rightarrow> string \<Rightarrow> string \<Rightarrow> string \<Rightarrow> Request" where
  "delivery lib secret event body =
     \<lparr>Header = [''X-Hub-Signature'' \<mapsto> sign lib secret body, ''X-GitHub-Event'' \<mapsto> event],
      Body = Inr body\<rparr>"

text \<open>
  The request \<open>req\<close> is an authenticated delivery of a \<open>pull_request\<close> event whose
  body parses to \<open>payload\<close>: the body can be read, the signature header is the
  signature of the body under the shared secret, and the event header names the
  event type.
\<close>

definition authenticPullRequest :: "Library \<Rightarrow> Config \<Rightarrow> Request \<Rightarrow> PullRequestEvent \<Rightarrow> bool" where
  "authenticPullRequest lib cfg req payload \<longleftrightarrow>
     (case Body req of
        Inl e \<Rightarrow> False
      | Inr body \<Rightarrow>
          Header req ''X-Hub-Signature'' = Some (sign lib (sharedSecret cfg) body) \<and>
          Header req ''X-GitHub-Event'' = Some ''pull_request'' \<and>
          ParseWebHook lib ''pull_request'' body = Inr payload)"

text \<open>
  The repository \<open>owner/name\<close> is the configured one: the configuration names the
  owner alone or the owner and the repository.
\<close>

definition configuredFor :: "Config \<Rightarrow> string \<Rightarrow> string \<Rightarrow> bool" where
  "configuredFor cfg owner name \<longleftrightarrow>
     CHR ''/'' \<notin> set owner \<and> CHR ''/'' \<notin> set name \<and>
     (repoOrOrgName cfg = owner \<or> repoOrOrgName cfg = owner @ ''/'' @ name)"

text \<open>The inclusive range of the label \<open>k\<close> in the table holds the count \<open>c\<close>.\<close>

definition matches :: "Sizes \<Rightarrow> string \<Rightarrow> int64 \<Rightarrow> bool" where
  "matches sizes k c \<longleftrightarrow>
     (case sizes k of
        None \<Rightarrow> False
      | Some v \<Rightarrow> sint (Min_size v) \<le> sint c \<and> sint c \<le> sint (Max_size v))"

text \<open>Every call in \<open>calls\<close> lists the files of the pull request, with the page size of \<open>opts\<close>.\<close>

definition listCalls :: "string \<Rightarrow> string \<Rightarrow> int \<Rightarrow> ListOptions \<Rightarrow> call list \<Rightarrow> bool" where
  "listCalls owner repo number opts calls \<longleftrightarrow>
     (\<forall>c\<in>set calls. \<exists>page. c = ListFilesCall owner repo number (opts\<lparr>Page := page\<rparr>))"



text \<open>A file of the listing that carries the count \<open>n\<close>.\<close>

definition cfile :: "go_int \<Rightarrow> CommitFile" where
  "cfile n = \<lparr>Changes = Some n\<rparr>"


text \<open>
  An upstream that keeps the labels of every pull request. Removing a label that
  is on the pull request answers 200; removing one that is not answers 404 together
  with an error, as go-github reports every status outside 2xx; adding labels
  succeeds. The listing is a fixed table from the page asked for to the answer.
\<close>

type_synonym labels = "string \<times> string \<times> int \<Rightarrow> string set"

definition github ::
  "(int \<Rightarrow> CommitFile list \<times> Response option \<times> error option) \<Rightarrow> labels Client" where
  "github listing =
     \<lparr>ListFiles = (\<lambda>owner repo number opts w. (listing (Page opts), w)),
      RemoveLabelForIssue = (\<lambda>owner repo number k w.
        if k \<in> w (owner, repo, number)
        then ((Some \<lparr>StatusCode = 200, Status = ''200 OK'', NextPage = 0\<rparr>, None),
              w((owner, repo, number) := w (owner, repo, number) - {k}))
        else ((Some \<lparr>StatusCode = 404, Status = ''404 Not Found'', NextPage = 0\<rparr>,
               Some (Error ''404 Not Found'')), w)),
      AddLabelsToIssue = (\<lambda>owner repo number ks w.
        (None, w((owner, repo, number) := w (owner, repo, number) \<union> set ks)))\<rparr>"

subsection \<open>Concrete values\<close>

text \<open>
  A library whose digest is a stand-in (20 bytes made of the key and the message)
  and whose parser decodes every body to the payload \<open>p\<close>.
\<close>

definition exampleLibrary :: "PullRequestEvent \<Rightarrow> Library" where
  "exampleLibrary p =
     \<lparr>hmac_sha1 = (\<lambda>key message. take 20 (key @ message @ replicate 20 (CHR 0x00))),
      ParseWebHook = (\<lambda>event body. Inr p)\<rparr>"

definition exampleConfig :: Config where
  "exampleConfig = \<lparr>sharedSecret = ''s3cret'', repoOrOrgName = ''acme/widget'', ghToken = ''t0ken''\<rparr>"

definition examplePayload :: "string \<Rightarrow> string \<Rightarrow> PullRequestEvent" where
  "examplePayload fullName action =
     \<lparr>Action = Some action, Number = Some 7, Repo = Some \<lparr>FullName = Some fullName\<rparr>\<rparr>"

definition exampleOrder :: "string list" where
  "exampleOrder = [''size/XS'', ''size/S'', ''size/M'', ''size/L'', ''size/XL'', ''size/XXL'']"

text \<open>A listing of two pages, with 40 and 7 changed lines.\<close>

definition twoPages :: "int \<Rightarrow> CommitFile list \<times> Response option \<times> error option" where
  "twoPages page =
     (if page = 0
      then ([cfile 25, cfile 15], Some \<lparr>StatusCode = 200, Status = ''200 OK'', NextPage = 2\<rparr>, None)
      else ([cfile 7], Some \<lparr>StatusCode = 200, Status = ''200 OK'', NextPage = 0\<rparr>, None))"


text \<open>A listing whose first request fails in transport: an error and no response.\<close>

definition listingDown :: "int \<Rightarrow> CommitFile list \<times> Response option \<times> error option" where
  "listingDown page = ([], None, Some (Error ''dial tcp: connection refused''))"

text \<open>An upstream whose label removal fails in transport: an error and no response.\<close>

definition removalDown :: "labels Client" where
  "removalDown =
     (github twoPages)\<lparr>RemoveLabelForIssue :=
        (\<lambda>owner repo number k w. ((None, Some (Error ''dial tcp: connection refused'')), w))\<rparr>"

text \<open>No pull request carries a label.\<close>

definition noLabels :: labels where
  "noLabels = (\<lambda>pr. {})"

text \<open>The signed delivery of a \<open>pull_request\<close> event that the example parser decodes.\<close>

definition exampleDelivery :: "string \<Rightarrow> string \<Rightarrow> Request" where
  "exampleDelivery fullName action =
     delivery (exampleLibrary (examplePayload fullName action)) (sharedSecret exampleConfig)
       ''pull_request'' ''{}''"

text \<open>The labels of one pull request before the handler runs.\<close>

definition exampleLabels :: labels where
  "exampleLabels = noLabels((''acme'', ''widget'', 7) := {''bug'', ''size/XS''})"

text \<open>An upstream that refuses to add labels.\<close>

definition addDenied :: "labels Client" where
  "addDenied =
     (github twoPages)\<lparr>AddLabelsToIssue :=
        (\<lambda>owner repo number ks w. (Some (Error ''403 Forbidden''), w))\<rparr>"

section \<open>Properties\<close>

lemma Split_not_Nil: "Split s sep \<noteq> []"
  by (induction s) (auto split: list.splits)

subsection \<open>The constant-time comparison is equality\<close>

lemma unat_byte_up: "unat (ucast (v::8 word) :: 32 word) = unat v"
proof -
  have "unat v < 2 ^ 32"
    using unsigned_less [of v, where ?'a = nat] by simp
  then show ?thesis
    by (simp add: unsigned_ucast_eq take_bit_nat_eq_self)
qed

lemma ConstantTimeByteEq_zero: "ConstantTimeByteEq v 0 = 1 \<longleftrightarrow> v = 0"
proof (cases "v = 0")
  case True
  then show ?thesis by (simp add: ConstantTimeByteEq_def)
next
  case False
  let ?u = "ucast v :: 32 word"
  have uv: "unat ?u = unat v" by (rule unat_byte_up)
  have "unat v \<noteq> 0" using False by (simp add: unat_0_iff)
  then have "?u \<noteq> 0" using uv by (metis unat_0_iff)
  then have "unat (?u - 1) = unat v - 1" using uv by (simp add: unat_minus_one)
  moreover have "unat v < 256" using unsigned_less [of v, where ?'a = nat] by simp
  ultimately have "unat (?u - 1) < 2 ^ 31" by simp
  then have "drop_bit 31 (unat (?u - 1)) = 0"
    by (simp add: drop_bit_eq_div)
  then have "unat (drop_bit 31 (?u - 1)) = 0"
    by (simp only: unat_drop_bit_eq)
  then have "drop_bit 31 (?u - 1) = 0" by (simp add: unat_0_iff)
  then show ?thesis using False by (simp add: ConstantTimeByteEq_def)
qed

lemma byte_inj: "byte x = byte y \<longleftrightarrow> x = y"
proof
  assume "byte x = byte y"
  then have "unat (word_of_nat (of_char x) :: 8 word) = unat (word_of_nat (of_char y) :: 8 word)"
    by (simp add: byte_def)
  moreover have "(of_char x :: nat) < 256" "(of_char y :: nat) < 256"
    using of_char_mod_256 [of x, where ?'a = nat] of_char_mod_256 [of y, where ?'a = nat]
    by (metis mod_less_divisor zero_less_numeral)+
  ultimately have "(of_char x :: nat) = of_char y"
    by (simp add: unat_of_nat)
  then show "x = y" by simp
qed simp

lemma orXor_zero: "orXor v xs ys = 0 \<Longrightarrow> v = 0"
  by (induction v xs ys rule: orXor.induct) (auto simp: or_eq_0_iff)

lemma xor_zero_iff: "(a::8 word) XOR b = 0 \<longleftrightarrow> a = b"
  by (metis bit.xor_left_self xor.right_neutral)

lemma orXor_zero_iff: "length xs = length ys \<Longrightarrow> orXor 0 xs ys = 0 \<longleftrightarrow> xs = ys"
proof (induction xs arbitrary: ys)
  case Nil then show ?case by simp
next
  case (Cons x xs)
  then obtain y ys' where ys: "ys = y # ys'" by (cases ys) auto
  show ?case
  proof (cases "byte x = byte y")
    case True
    then show ?thesis using Cons ys by (simp add: byte_inj)
  next
    case False
    then have "byte x XOR byte y \<noteq> 0" by (simp add: xor_zero_iff)
    then have "orXor (0 OR (byte x XOR byte y)) xs ys' \<noteq> 0"
      using orXor_zero by fastforce
    then show ?thesis using False ys by (auto simp: byte_inj)
  qed
qed

lemma ConstantTimeCompare_iff: "ConstantTimeCompare x y = 1 \<longleftrightarrow> x = y"
  by (auto simp: ConstantTimeCompare_def ConstantTimeByteEq_zero orXor_zero_iff)

lemma validateSig_iff:
  "validateSig lib cfg sig body = None \<longleftrightarrow> sig = sign lib (sharedSecret cfg) body"
  by (auto simp: validateSig_def sign_def Let_def ConstantTimeCompare_iff)

subsection \<open>The default table\<close>

lemma matches_unique:
  assumes "0 \<le> sint c"
  shows "\<exists>!k. matches defaultSizes k c"
proof -
  have top: "sint c \<le> 9223372036854775807"
    using sint_lt [of c] by simp
  consider "sint c \<le> 9" | "10 \<le> sint c \<and> sint c \<le> 29" | "30 \<le> sint c \<and> sint c \<le> 99"
    | "100 \<le> sint c \<and> sint c \<le> 499" | "500 \<le> sint c \<and> sint c \<le> 999" | "1000 \<le> sint c"
    by linarith
  then show ?thesis
  proof cases
    case 1
    with assms top show ?thesis
      by (intro ex1I [of _ "''size/XS''"]) (auto simp: matches_def defaultSizes_def MaxInt64_def split: if_splits)
  next
    case 2
    with assms top show ?thesis
      by (intro ex1I [of _ "''size/S''"]) (auto simp: matches_def defaultSizes_def MaxInt64_def split: if_splits)
  next
    case 3
    with assms top show ?thesis
      by (intro ex1I [of _ "''size/M''"]) (auto simp: matches_def defaultSizes_def MaxInt64_def split: if_splits)
  next
    case 4
    with assms top show ?thesis
      by (intro ex1I [of _ "''size/L''"]) (auto simp: matches_def defaultSizes_def MaxInt64_def split: if_splits)
  next
    case 5
    with assms top show ?thesis
      by (intro ex1I [of _ "''size/XL''"]) (auto simp: matches_def defaultSizes_def MaxInt64_def split: if_splits)
  next
    case 6
    with assms top show ?thesis
      by (intro ex1I [of _ "''size/XXL''"]) (auto simp: matches_def defaultSizes_def MaxInt64_def split: if_splits)
  qed
qed

lemma addLoop_skip:
  "\<not> matches defaultSizes k0 c \<Longrightarrow>
   addLoop client owner repo number c (k0 # ks) w = addLoop client owner repo number c ks w"
  by (auto simp: matches_def split: option.splits)

lemma addLoop_hit:
  "matches defaultSizes k c \<Longrightarrow>
   addLoop client owner repo number c (k # ks) w =
     (case AddLabelsToIssue client owner repo number [k] w of
        (err, w') \<Rightarrow> (Returned (k, err), [AddLabelsCall owner repo number [k]], w'))"
  by (simp add: matches_def split: option.splits)

lemma addLoop_first_match:
  assumes "k \<in> set ks" and "matches defaultSizes k c"
    and "\<And>k'. matches defaultSizes k' c \<Longrightarrow> k' = k"
  shows "addLoop client owner repo number c ks w =
     (case AddLabelsToIssue client owner repo number [k] w of
        (err, w') \<Rightarrow> (Returned (k, err), [AddLabelsCall owner repo number [k]], w'))"
  using assms(1)
proof (induction ks)
  case Nil
  then show ?case by simp
next
  case (Cons k0 ks)
  show ?case
  proof (cases "matches defaultSizes k0 c")
    case True
    then have "k0 = k" by (rule assms(3))
    then show ?thesis using assms(2) by (simp only: addLoop_hit)
  next
    case False
    then have "k0 \<noteq> k" using assms(2) by blast
    then have "k \<in> set ks" using Cons.prems by simp
    then have "addLoop client owner repo number c ks w =
     (case AddLabelsToIssue client owner repo number [k] w of
        (err, w') \<Rightarrow> (Returned (k, err), [AddLabelsCall owner repo number [k]], w'))"
      by (rule Cons.IH)
    then show ?thesis by (simp only: addLoop_skip [OF False])
  qed
qed

lemma matches_dom: "matches sizes k c \<Longrightarrow> k \<in> dom sizes"
  by (auto simp: matches_def split: option.splits)

lemma exampleOrder_rangeOrder: "rangeOrder defaultSizes exampleOrder"
  by (auto simp: rangeOrder_def exampleOrder_def defaultSizes_def)

lemma rev_exampleOrder_rangeOrder: "rangeOrder defaultSizes (rev exampleOrder)"
  using exampleOrder_rangeOrder by (simp add: rangeOrder_def)

subsection \<open>The handler up to the listing\<close>

lemma Split_no_sep: "sep \<notin> set s \<Longrightarrow> Split s sep = [s]"
  by (induction s) auto

lemma Split_append: "sep \<notin> set a \<Longrightarrow> Split (a @ sep # b) sep = a # Split b sep"
  by (induction a) auto

lemma sign_not_Nil: "sign lib secret body \<noteq> []"
  by (simp add: sign_def)

lemma processHook_authentic:
  assumes "authenticPullRequest lib cfg req payload"
  shows "processHook lib cfg client order1 order2 req w =
           map_option (emit ParseWebHookCall) (processPayload cfg client order1 order2 payload w)"
proof -
  from assms obtain body where b: "Body req = Inr body"
    and h: "Header req ''X-Hub-Signature'' = Some (sign lib (sharedSecret cfg) body)"
    and e: "Header req ''X-GitHub-Event'' = Some ''pull_request''"
    and p: "ParseWebHook lib ''pull_request'' body = Inr payload"
    by (auto simp: authenticPullRequest_def split: sum.splits)
  have v: "validateSig lib cfg (sign lib (sharedSecret cfg) body) body = None"
    by (simp add: validateSig_iff)
  show ?thesis
    by (simp add: processHook_def Get_def b h e p v sign_not_Nil)
qed

lemma processPayload_configured:
  assumes "Repo payload = Some \<lparr>FullName = Some (owner @ ''/'' @ name)\<rparr>"
    and "configuredFor cfg owner name"
    and "Action payload = Some action"
  shows "processPayload cfg client order1 order2 payload w =
           (if action \<noteq> ''opened'' \<and> action \<noteq> ''synchronize'' \<and> action \<noteq> ''reopened''
            then Some (Returned (JSON 200 ''Skipping action''), [], w)
            else sizePullRequest client order1 order2 [owner, name] payload w)"
proof -
  from assms(2) have o: "CHR ''/'' \<notin> set owner" and n: "CHR ''/'' \<notin> set name"
    and c: "repoOrOrgName cfg = owner \<or> repoOrOrgName cfg = owner @ ''/'' @ name"
    by (auto simp: configuredFor_def)
  have rs: "Split (owner @ CHR ''/'' # name) (CHR ''/'') = [owner, name]"
    using o n by (simp add: Split_append Split_no_sep)
  from c show ?thesis
  proof
    assume "repoOrOrgName cfg = owner"
    then have "Split (repoOrOrgName cfg) (CHR ''/'') = [owner]"
      using o by (simp add: Split_no_sep)
    then show ?thesis
      by (simp add: processPayload_def assms(1,3) rs index_def Let_def)
  next
    assume "repoOrOrgName cfg = owner @ ''/'' @ name"
    then have "Split (repoOrOrgName cfg) (CHR ''/'') = [owner, name]"
      using rs by simp
    then show ?thesis
      by (simp add: processPayload_def assms(1,3) rs index_def Let_def)
  qed
qed

subsection \<open>The trace of the listing loop\<close>

lemma listCalls_Nil: "listCalls owner repo number opts []"
  by (simp add: listCalls_def)

lemma listCalls_Cons:
  "listCalls owner repo number (opts\<lparr>Page := p\<rparr>) calls \<Longrightarrow>
   listCalls owner repo number opts (ListFilesCall owner repo number (opts\<lparr>Page := p\<rparr>) # calls)"
  by (auto simp: listCalls_def)

lemma readLoop_trace:
  assumes "readLoop client owner repo number opts changes tr w = Some y"
  shows "\<exists>calls. fst (snd y) = tr @ ListFilesCall owner repo number opts # calls \<and>
           listCalls owner repo number opts calls"
proof (rule readLoop.raw_induct [where P = "\<lambda>client owner repo number opts changes tr w y.
    \<exists>calls. fst (snd y) = tr @ ListFilesCall owner repo number opts # calls \<and>
           listCalls owner repo number opts calls", OF _ assms])
  fix readLoop' :: "'a Client \<Rightarrow> string \<Rightarrow> string \<Rightarrow> int \<Rightarrow> ListOptions \<Rightarrow> go_int \<Rightarrow> call list \<Rightarrow> 'a
     \<Rightarrow> ((go_int \<times> error option) outcome \<times> call list \<times> 'a) option"
  fix client owner repo number opts changes tr w y
  assume IH: "\<And>client owner repo number opts changes tr w y.
     readLoop' client owner repo number opts changes tr w = Some y \<Longrightarrow>
     \<exists>calls. fst (snd y) = tr @ ListFilesCall owner repo number opts # calls \<and>
           listCalls owner repo number opts calls"
  assume step: "(case ListFiles client owner repo number opts w of
        ((cfs, resp, err), w') \<Rightarrow>
          (let tr' = tr @ [ListFilesCall owner repo number opts] in
           case err of
             Some e \<Rightarrow> Some (Returned (0, Some e), tr', w')
           | None \<Rightarrow>
               (case resp of
                  None \<Rightarrow> Some (Panicked NilPointerDereference, tr', w')
                | Some r \<Rightarrow>
                    if StatusCode r \<noteq> 200
                    then Some (Returned (0, Some (Error
                           (''Unable to get changed files. Status code: '' @ Status r))), tr', w')
                    else (case sumChanges changes cfs of
                            Panicked p \<Rightarrow> Some (Panicked p, tr', w')
                          | Returned changes' \<Rightarrow>
                              if NextPage r = 0
                              then Some (Returned (changes', None), tr', w')
                              else readLoop' client owner repo number
                                     (opts\<lparr>Page := NextPage r\<rparr>) changes' tr' w')))) = Some y"
  obtain cfs resp err w1 where L: "ListFiles client owner repo number opts w = ((cfs, resp, err), w1)"
    by (metis prod.exhaust)
  show "\<exists>calls. fst (snd y) = tr @ ListFilesCall owner repo number opts # calls \<and>
           listCalls owner repo number opts calls"
  proof (cases "\<exists>r changes'. err = None \<and> resp = Some r \<and> StatusCode r = 200 \<and>
      sumChanges changes cfs = Returned changes' \<and> NextPage r \<noteq> 0")
    case True
    then obtain r changes' where c: "err = None" "resp = Some r" "StatusCode r = 200"
      "sumChanges changes cfs = Returned changes'" "NextPage r \<noteq> 0" by blast
    from step have "readLoop' client owner repo number (opts\<lparr>Page := NextPage r\<rparr>) changes'
        (tr @ [ListFilesCall owner repo number opts]) w1 = Some y"
      by (simp add: L c)
    from IH [OF this] obtain calls where
      "fst (snd y) = (tr @ [ListFilesCall owner repo number opts]) @
          ListFilesCall owner repo number (opts\<lparr>Page := NextPage r\<rparr>) # calls"
      "listCalls owner repo number (opts\<lparr>Page := NextPage r\<rparr>) calls" by blast
    then show ?thesis
      using listCalls_Cons [where opts = opts and p = "NextPage r" and calls = calls]
      by (intro exI [of _ "ListFilesCall owner repo number (opts\<lparr>Page := NextPage r\<rparr>) # calls"]) simp
  next
    case False
    with step have "fst (snd y) = tr @ [ListFilesCall owner repo number opts]"
      by (auto simp: L Let_def split: option.splits if_splits outcome.splits)
    then show ?thesis by (simp add: listCalls_Nil)
  qed
qed

subsection \<open>The listing loop on a listing that ends\<close>









subsection \<open>The traces of the label loops and of the handler\<close>















subsection \<open>updateLabel on the upstream that keeps the labels\<close>

lemma removeLoop_github:
  "removeLoop (github listing) owner repo number ks w =
     (Returned None, map (RemoveLabelCall owner repo number) ks,
      w((owner, repo, number) := w (owner, repo, number) - set ks))"
proof (induction ks arbitrary: w)
  case Nil
  then show ?case by simp
next
  case (Cons k ks)
  show ?case
  proof (cases "k \<in> w (owner, repo, number)")
    case True
    then have "RemoveLabelForIssue (github listing) owner repo number k w =
        ((Some \<lparr>StatusCode = 200, Status = ''200 OK'', NextPage = 0\<rparr>, None),
         w((owner, repo, number) := w (owner, repo, number) - {k}))"
      by (simp add: github_def)
    moreover have "w (owner, repo, number) - {k} - set ks = w (owner, repo, number) - insert k (set ks)"
      by blast
    ultimately show ?thesis
      by (simp add: Cons.IH emit_def fun_eq_iff)
  next
    case False
    then have "RemoveLabelForIssue (github listing) owner repo number k w =
        ((Some \<lparr>StatusCode = 404, Status = ''404 Not Found'', NextPage = 0\<rparr>,
          Some (Error ''404 Not Found'')), w)"
      by (simp add: github_def)
    moreover have "w (owner, repo, number) - set ks = w (owner, repo, number) - insert k (set ks)"
      using False by blast
    ultimately show ?thesis
      by (simp add: Cons.IH emit_def fun_eq_iff)
  qed
qed

lemma updateLabel_github:
  assumes "rangeOrder defaultSizes order1" and "rangeOrder defaultSizes order2"
    and "0 \<le> sint c" and "matches defaultSizes k c"
  shows "updateLabel (github listing) order1 order2 owner repo number c w =
     (Returned (k, None),
      map (RemoveLabelCall owner repo number) order1 @ [AddLabelsCall owner repo number [k]],
      w((owner, repo, number) := insert k (w (owner, repo, number) - dom defaultSizes)))"
proof -
  have k: "k \<in> set order2" using assms(2,4) matches_dom by (auto simp: rangeOrder_def)
  have u: "k' = k" if "matches defaultSizes k' c" for k'
    using matches_unique [OF assms(3)] that assms(4) by blast
  have s: "set order1 = dom defaultSizes" using assms(1) by (simp add: rangeOrder_def)
  show ?thesis
    by (simp add: updateLabel_def removeLoop_github addLoop_first_match [OF k assms(4) u] s)
      (simp add: github_def)
qed

subsection \<open>The handler on the example deliveries\<close>

lemma exampleDelivery_authentic:
  "authenticPullRequest (exampleLibrary (examplePayload f a)) exampleConfig (exampleDelivery f a)
     (examplePayload f a)"
  by (simp add: authenticPullRequest_def exampleDelivery_def delivery_def exampleLibrary_def)

lemma exampleConfig_configuredFor: "configuredFor exampleConfig ''acme'' ''widget''"
  by (simp add: configuredFor_def exampleConfig_def)

lemma example_processHook:
  "processHook (exampleLibrary (examplePayload ''acme/widget'' a)) exampleConfig client order1 order2
     (exampleDelivery ''acme/widget'' a) w =
   map_option (emit ParseWebHookCall)
     (if a \<noteq> ''opened'' \<and> a \<noteq> ''synchronize'' \<and> a \<noteq> ''reopened''
      then Some (Returned (JSON 200 ''Skipping action''), [], w)
      else sizePullRequest client order1 order2 [''acme'', ''widget'']
             (examplePayload ''acme/widget'' a) w)"
proof -
  have "Repo (examplePayload ''acme/widget'' a) = Some \<lparr>FullName = Some (''acme'' @ ''/'' @ ''widget'')\<rparr>"
    "Action (examplePayload ''acme/widget'' a) = Some a"
    by (simp_all add: examplePayload_def)
  note p = processPayload_configured [OF this(1) exampleConfig_configuredFor this(2)]
  show ?thesis
    by (simp only: processHook_authentic [OF exampleDelivery_authentic] p)
qed


lemma read_listingDown:
  "readPaginatedFileChanges (github listingDown) ''acme'' ''widget'' 7 w =
     Some (Returned (0, Some (Error ''dial tcp: connection refused'')),
       [ListFilesCall ''acme'' ''widget'' 7 \<lparr>Page = 0, PerPage = 100\<rparr>], w)"
  unfolding readPaginatedFileChanges_def
  by (subst readLoop.simps) (simp add: github_def listingDown_def)

lemma matches_47: "matches defaultSizes ''size/M'' 47"
  by (simp add: matches_def defaultSizes_def)


lemma sizePullRequest_first_call:
  assumes "sizePullRequest client order1 order2 [owner, name] payload w = Some (out, tr, w')"
    and "Number payload = Some number"
  shows "\<exists>calls. tr = ListFilesCall owner name number \<lparr>Page = 0, PerPage = 100\<rparr> # calls"
proof -
  from assms obtain y where y: "readPaginatedFileChanges client owner name number w = Some y"
    and tr: "tr = fst (snd y) \<or> (\<exists>tr2. tr = fst (snd y) @ tr2)"
    by (auto simp: sizePullRequest_def index_def split: option.splits outcome.splits prod.splits)
  from readLoop_trace [OF y [unfolded readPaginatedFileChanges_def]] obtain calls where
    "fst (snd y) = ListFilesCall owner name number \<lparr>Page = 0, PerPage = 100\<rparr> # calls"
    by auto
  then show ?thesis using tr by auto
qed




lemma github_remove_absent:
  "k \<notin> w (owner, repo, number) \<Longrightarrow>
   RemoveLabelForIssue (github listing) owner repo number k w =
     ((Some \<lparr>StatusCode = 404, Status = ''404 Not Found'', NextPage = 0\<rparr>,
       Some (Error ''404 Not Found'')), w)"
  by (simp add: github_def)

text \<open>Behind \<open>gin.Recovery()\<close> a panic of the handler is answered 500.\<close>

lemma webhook_panic:
  "processHook lib cfg client order1 order2 req w = Some (Panicked p, tr, w') \<Longrightarrow>
   webhook lib cfg client order1 order2 req w = Some (AbortWithStatus 500, tr, w') \<and>
   statusOf (AbortWithStatus 500) = 500"
  by (simp add: webhook_def Recovery_def)

lemma removeLoop_cong:
  "RemoveLabelForIssue c1 = RemoveLabelForIssue c2 \<Longrightarrow>
   removeLoop c1 owner repo number ks w = removeLoop c2 owner repo number ks w"
  by (induction ks arbitrary: w) (simp_all split: prod.splits option.splits)

lemma read_addDenied:
  "readPaginatedFileChanges addDenied ''acme'' ''widget'' 7 w =
     Some (Returned (47, None),
       [ListFilesCall ''acme'' ''widget'' 7 \<lparr>Page = 0, PerPage = 100\<rparr>,
        ListFilesCall ''acme'' ''widget'' 7 \<lparr>Page = 2, PerPage = 100\<rparr>], w)"
proof -
  have "readLoop addDenied ''acme'' ''widget'' 7 \<lparr>Page = 2, PerPage = 100\<rparr> 40
      [ListFilesCall ''acme'' ''widget'' 7 \<lparr>Page = 0, PerPage = 100\<rparr>] w =
     Some (Returned (47, None),
       [ListFilesCall ''acme'' ''widget'' 7 \<lparr>Page = 0, PerPage = 100\<rparr>,
        ListFilesCall ''acme'' ''widget'' 7 \<lparr>Page = 2, PerPage = 100\<rparr>], w)"
    by (subst readLoop.simps) (simp add: addDenied_def github_def twoPages_def cfile_def)
  then show ?thesis
    unfolding readPaginatedFileChanges_def
    by (subst readLoop.simps) (simp add: addDenied_def github_def twoPages_def cfile_def)
qed

lemma updateLabel_addDenied:
  "updateLabel addDenied exampleOrder (rev exampleOrder) ''acme'' ''widget'' 7 47 noLabels =
     (Returned (''size/M'', Some (Error ''403 Forbidden'')),
      map (RemoveLabelCall ''acme'' ''widget'' 7) exampleOrder @
        [AddLabelsCall ''acme'' ''widget'' 7 [''size/M'']],
      noLabels)"
proof -
  have r: "removeLoop addDenied ''acme'' ''widget'' 7 exampleOrder noLabels =
      (Returned None, map (RemoveLabelCall ''acme'' ''widget'' 7) exampleOrder, noLabels)"
  proof -
    have "removeLoop addDenied ''acme'' ''widget'' 7 exampleOrder noLabels =
        removeLoop (github twoPages) ''acme'' ''widget'' 7 exampleOrder noLabels"
      by (rule removeLoop_cong) (simp add: addDenied_def)
    also have "\<dots> = (Returned None, map (RemoveLabelCall ''acme'' ''widget'' 7) exampleOrder,
        noLabels((''acme'', ''widget'', 7) := noLabels (''acme'', ''widget'', 7) - set exampleOrder))"
      by (rule removeLoop_github)
    also have "noLabels((''acme'', ''widget'', 7) := noLabels (''acme'', ''widget'', 7) - set exampleOrder)
        = noLabels"
      by (simp add: noLabels_def fun_eq_iff)
    finally show ?thesis .
  qed
  have k: "''size/M'' \<in> set (rev exampleOrder)" by (simp add: exampleOrder_def)
  have u: "k' = ''size/M''" if "matches defaultSizes k' 47" for k'
    using matches_unique [of 47] that matches_47 by auto
  have a: "addLoop addDenied ''acme'' ''widget'' 7 47 (rev exampleOrder) noLabels =
      (Returned (''size/M'', Some (Error ''403 Forbidden'')),
       [AddLabelsCall ''acme'' ''widget'' 7 [''size/M'']], noLabels)"
    by (subst addLoop_first_match [OF k matches_47 u]) (simp_all add: addDenied_def)
  show ?thesis by (simp add: updateLabel_def r a del: addLoop.simps)
qed

subsection \<open>Claims\<close>

text \<open>
  C3. For the default size table, every non-negative change count lies in the
  inclusive range of exactly one label, and the second loop of \<open>updateLabel\<close> adds and
  returns that label in whatever order it visits the table; the count 9 lies in the
  range of size/XS, 10 in that of size/S and 47 in that of size/M.
\<close>

theorem defaultSizes_one_label:
  "(0 \<le> sint c \<and> rangeOrder defaultSizes ks \<longrightarrow>
      (\<exists>!k. matches defaultSizes k c) \<and>
      (\<forall>k. matches defaultSizes k c \<longrightarrow>
         addLoop client owner repo number c ks w =
           (case AddLabelsToIssue client owner repo number [k] w of
              (err, w') \<Rightarrow> (Returned (k, err), [AddLabelsCall owner repo number [k]], w')))) \<and>
   matches defaultSizes ''size/XS'' 9 \<and>
   matches defaultSizes ''size/S'' 10 \<and>
   matches defaultSizes ''size/M'' 47"
proof -
  have "addLoop client owner repo number c ks w =
           (case AddLabelsToIssue client owner repo number [k] w of
              (err, w') \<Rightarrow> (Returned (k, err), [AddLabelsCall owner repo number [k]], w'))"
    if "0 \<le> sint c" "rangeOrder defaultSizes ks" "matches defaultSizes k c" for k
  proof (rule addLoop_first_match)
    show "k \<in> set ks" using that(2) matches_dom [OF that(3)] by (simp add: rangeOrder_def)
    show "matches defaultSizes k c" by (rule that(3))
    show "k' = k" if "matches defaultSizes k' c" for k'
      using matches_unique [OF \<open>0 \<le> sint c\<close>] that \<open>matches defaultSizes k c\<close> by blast
  qed
  moreover have "matches defaultSizes ''size/XS'' 9" "matches defaultSizes ''size/S'' 10"
    "matches defaultSizes ''size/M'' 47"
    by (simp_all add: matches_def defaultSizes_def)
  moreover have "\<exists>!k. matches defaultSizes k c" if "0 \<le> sint c"
    using that by (rule matches_unique)
  ultimately show ?thesis by blast
qed

theorem defaultSizes_one_label_witness:
  "0 \<le> sint (47 :: int64) \<and> rangeOrder defaultSizes (rev exampleOrder) \<and>
   (\<exists>!k. matches defaultSizes k 47) \<and>
   addLoop (github twoPages) ''acme'' ''widget'' 7 47 (rev exampleOrder) (\<lambda>pr. {}) =
     (Returned (''size/M'', None), [AddLabelsCall ''acme'' ''widget'' 7 [''size/M'']],
      (\<lambda>pr. {})((''acme'', ''widget'', 7) := {''size/M''}))"
proof -
  have pos: "0 \<le> sint (47 :: int64)" by simp
  note one = defaultSizes_one_label [where c = 47 and ks = "rev exampleOrder"
      and client = "github twoPages" and owner = "''acme''" and repo = "''widget''"
      and number = 7 and w = "\<lambda>pr. {}"]
  from one pos rev_exampleOrder_rangeOrder
  have "\<exists>!k. matches defaultSizes k 47"
    and "addLoop (github twoPages) ''acme'' ''widget'' 7 47 (rev exampleOrder) (\<lambda>pr. {}) =
           (case AddLabelsToIssue (github twoPages) ''acme'' ''widget'' 7 [''size/M''] (\<lambda>pr. {}) of
              (err, w') \<Rightarrow> (Returned (''size/M'', err), [AddLabelsCall ''acme'' ''widget'' 7 [''size/M'']], w'))"
    by blast+
  then show ?thesis using pos rev_exampleOrder_rangeOrder by (simp add: github_def)
qed

text \<open>
  C5. \<open>validateSig\<close> accepts the signature \<open>sign s b\<close> of the body \<open>b\<close> under the shared
  secret \<open>s\<close> (the string \<open>sha1=\<close> followed by the lowercase hex digest), and it
  rejects every other signature string.
\<close>

theorem validateSig_sign:
  "validateSig lib cfg (sign lib (sharedSecret cfg) body) body = None \<and>
   (sig \<noteq> sign lib (sharedSecret cfg) body \<longrightarrow>
      validateSig lib cfg sig body = Some (Error ''payload signature check failed''))"
  by (auto simp: validateSig_def sign_def Let_def ConstantTimeCompare_iff)

theorem validateSig_sign_witness:
  "sign (exampleLibrary (examplePayload ''acme/widget'' ''opened'')) (sharedSecret exampleConfig) ''{}'' =
     ''sha1=7333637265747b7d000000000000000000000000'' \<and>
   validateSig (exampleLibrary (examplePayload ''acme/widget'' ''opened'')) exampleConfig
     ''sha1=7333637265747b7d000000000000000000000000'' ''{}'' = None \<and>
   validateSig (exampleLibrary (examplePayload ''acme/widget'' ''opened'')) exampleConfig
     ''sha1=7333637265747b7d000000000000000000000001'' ''{}'' =
       Some (Error ''payload signature check failed'')"
proof -
  have s: "sign (exampleLibrary (examplePayload ''acme/widget'' ''opened'')) (sharedSecret exampleConfig) ''{}'' =
     ''sha1=7333637265747b7d000000000000000000000000''"
    by code_simp
  show ?thesis
    using validateSig_sign [of "exampleLibrary (examplePayload ''acme/widget'' ''opened'')" exampleConfig "''{}''"
        "''sha1=7333637265747b7d000000000000000000000001''"]
    by (simp add: s)
qed



text \<open>
  C2, as the code has it. For an authenticated \<open>pull_request\<close> event for the configured
  repository, the handler goes on to the listing if and only if the action is one of
  \<open>opened\<close>, \<open>synchronize\<close> and \<open>reopened\<close> (the name GitHub gives the action, not
  \<open>synchronized\<close>): for every other action it answers 200 with \<open>Skipping action\<close> and
  makes no call of the client; for these three, the first call of the client, the
  request for page 0 of the listing with 100 files per page, is made.
\<close>

theorem processHook_action_filter:
  assumes "authenticPullRequest lib cfg req payload"
    and "Repo payload = Some \<lparr>FullName = Some (owner @ ''/'' @ name)\<rparr>"
    and "configuredFor cfg owner name"
    and "Action payload = Some action" and "Number payload = Some number"
  shows "(action \<notin> {''opened'', ''synchronize'', ''reopened''} \<longrightarrow>
            processHook lib cfg client order1 order2 req w =
              Some (Returned (JSON 200 ''Skipping action''), [ParseWebHookCall], w)) \<and>
         (action \<in> {''opened'', ''synchronize'', ''reopened''} \<longrightarrow>
            (case processHook lib cfg client order1 order2 req w of
               None \<Rightarrow> True
             | Some (out, tr, w') \<Rightarrow>
                 \<exists>calls. tr = ParseWebHookCall #
                   ListFilesCall owner name number \<lparr>Page = 0, PerPage = 100\<rparr> # calls))"
proof -
  note p = processPayload_configured [OF assms(2,3,4), of client order1 order2 w]
  have h: "processHook lib cfg client order1 order2 req w =
      map_option (emit ParseWebHookCall) (processPayload cfg client order1 order2 payload w)"
    by (rule processHook_authentic [OF assms(1)])
  have skip: "processHook lib cfg client order1 order2 req w =
              Some (Returned (JSON 200 ''Skipping action''), [ParseWebHookCall], w)"
    if "action \<notin> {''opened'', ''synchronize'', ''reopened''}"
    using that by (simp add: h p emit_def)
  have go: "case processHook lib cfg client order1 order2 req w of
               None \<Rightarrow> True
             | Some (out, tr, w') \<Rightarrow>
                 \<exists>calls. tr = ParseWebHookCall #
                   ListFilesCall owner name number \<lparr>Page = 0, PerPage = 100\<rparr> # calls"
    if "action \<in> {''opened'', ''synchronize'', ''reopened''}"
  proof (cases "sizePullRequest client order1 order2 [owner, name] payload w")
    case None
    then show ?thesis using that by (auto simp: h p)
  next
    case (Some y)
    obtain out tr w' where y: "y = (out, tr, w')" by (metis prod.exhaust)
    from sizePullRequest_first_call [OF Some [unfolded y] assms(5)] obtain calls where
      "tr = ListFilesCall owner name number \<lparr>Page = 0, PerPage = 100\<rparr> # calls" by blast
    moreover have "processHook lib cfg client order1 order2 req w = Some (out, ParseWebHookCall # tr, w')"
      using that Some y by (auto simp: h p emit_def)
    ultimately show ?thesis by simp
  qed
  from skip go show ?thesis by blast
qed

text \<open>
  The claim as it was written names the action \<open>synchronized\<close>; a delivery with that
  action is skipped.
\<close>

theorem synchronized_is_skipped:
  "processHook (exampleLibrary (examplePayload ''acme/widget'' ''synchronized'')) exampleConfig
     (github twoPages) exampleOrder (rev exampleOrder)
     (exampleDelivery ''acme/widget'' ''synchronized'') noLabels =
   Some (Returned (JSON 200 ''Skipping action''), [ParseWebHookCall], noLabels)"
  by (subst example_processHook) (simp add: emit_def)

theorem processHook_action_filter_witness:
  "authenticPullRequest (exampleLibrary (examplePayload ''acme/widget'' ''labeled'')) exampleConfig
     (exampleDelivery ''acme/widget'' ''labeled'') (examplePayload ''acme/widget'' ''labeled'') \<and>
   configuredFor exampleConfig ''acme'' ''widget'' \<and>
   processHook (exampleLibrary (examplePayload ''acme/widget'' ''labeled'')) exampleConfig
     (github twoPages) exampleOrder (rev exampleOrder)
     (exampleDelivery ''acme/widget'' ''labeled'') noLabels =
   Some (Returned (JSON 200 ''Skipping action''), [ParseWebHookCall], noLabels) \<and>
   (case processHook (exampleLibrary (examplePayload ''acme/widget'' ''synchronize'')) exampleConfig
     (github twoPages) exampleOrder (rev exampleOrder)
     (exampleDelivery ''acme/widget'' ''synchronize'') noLabels of
      None \<Rightarrow> True
    | Some (out, tr, w') \<Rightarrow>
        \<exists>calls. tr = ParseWebHookCall #
          ListFilesCall ''acme'' ''widget'' 7 \<lparr>Page = 0, PerPage = 100\<rparr> # calls)"
proof -
  have r: "Repo (examplePayload ''acme/widget'' a) = Some \<lparr>FullName = Some (''acme'' @ ''/'' @ ''widget'')\<rparr>"
    and a: "Action (examplePayload ''acme/widget'' a) = Some a"
    and n: "Number (examplePayload ''acme/widget'' a) = Some 7" for a
    by (simp_all add: examplePayload_def)
  note t = processHook_action_filter [OF exampleDelivery_authentic r exampleConfig_configuredFor a n,
      where client = "github twoPages" and ?order1.0 = exampleOrder and ?order2.0 = "rev exampleOrder"
        and w = noLabels]
  have "processHook (exampleLibrary (examplePayload ''acme/widget'' ''labeled'')) exampleConfig
     (github twoPages) exampleOrder (rev exampleOrder)
     (exampleDelivery ''acme/widget'' ''labeled'') noLabels =
   Some (Returned (JSON 200 ''Skipping action''), [ParseWebHookCall], noLabels)"
    by (rule t [THEN conjunct1, rule_format]) simp
  moreover have "case processHook (exampleLibrary (examplePayload ''acme/widget'' ''synchronize'')) exampleConfig
     (github twoPages) exampleOrder (rev exampleOrder)
     (exampleDelivery ''acme/widget'' ''synchronize'') noLabels of
      None \<Rightarrow> True
    | Some (out, tr, w') \<Rightarrow>
        \<exists>calls. tr = ParseWebHookCall #
          ListFilesCall ''acme'' ''widget'' 7 \<lparr>Page = 0, PerPage = 100\<rparr> # calls"
    by (rule t [THEN conjunct2, rule_format]) simp
  ultimately show ?thesis
    using exampleDelivery_authentic exampleConfig_configuredFor by (intro conjI)
qed

text \<open>
  C7. A request without the header \<open>X-Hub-Signature\<close> is answered 400. A request that
  carries a signature and a readable body, where the signature is not the one of the
  body under the shared secret, is answered 403; in that case the trace is empty: the
  body is not parsed, the client is not called, and the upstream state is unchanged.
\<close>

theorem processHook_signature:
  "(Header req ''X-Hub-Signature'' = None \<longrightarrow>
      processHook lib cfg client order1 order2 req w =
        Some (Returned (JSON 400 ''Missing X-Hub-Signature''), [], w)) \<and>
   (Header req ''X-Hub-Signature'' = Some sig \<and> sig \<noteq> [] \<and> Body req = Inr body \<and>
    sig \<noteq> sign lib (sharedSecret cfg) body \<longrightarrow>
      processHook lib cfg client order1 order2 req w =
        Some (Returned (JSON 403 ''Validating payload against signature failed''), [], w))"
  by (auto simp: processHook_def Get_def validateSig_iff)

theorem processHook_signature_witness:
  "processHook (exampleLibrary (examplePayload ''acme/widget'' ''opened'')) exampleConfig
     (github twoPages) exampleOrder (rev exampleOrder)
     \<lparr>Header = [''X-GitHub-Event'' \<mapsto> ''pull_request''], Body = Inr ''{}''\<rparr> noLabels =
   Some (Returned (JSON 400 ''Missing X-Hub-Signature''), [], noLabels) \<and>
   processHook (exampleLibrary (examplePayload ''acme/widget'' ''opened'')) exampleConfig
     (github twoPages) exampleOrder (rev exampleOrder)
     (delivery (exampleLibrary (examplePayload ''acme/widget'' ''opened'')) ''another secret''
        ''pull_request'' ''{}'') noLabels =
   Some (Returned (JSON 403 ''Validating payload against signature failed''), [], noLabels)"
proof -
  let ?lib = "exampleLibrary (examplePayload ''acme/widget'' ''opened'')"
  let ?req1 = "\<lparr>Header = [''X-GitHub-Event'' \<mapsto> ''pull_request''], Body = Inr ''{}''\<rparr>"
  let ?req2 = "delivery ?lib ''another secret'' ''pull_request'' ''{}''"
  have ne: "sign ?lib ''another secret'' ''{}'' \<noteq> sign ?lib (sharedSecret exampleConfig) ''{}''"
    by code_simp
  have "processHook ?lib exampleConfig (github twoPages) exampleOrder (rev exampleOrder) ?req1 noLabels =
      Some (Returned (JSON 400 ''Missing X-Hub-Signature''), [], noLabels)"
    by (rule processHook_signature [THEN conjunct1, rule_format]) simp
  moreover have "processHook ?lib exampleConfig (github twoPages) exampleOrder (rev exampleOrder) ?req2 noLabels =
      Some (Returned (JSON 403 ''Validating payload against signature failed''), [], noLabels)"
    by (rule processHook_signature [THEN conjunct2, rule_format,
          where sig = "sign ?lib ''another secret'' ''{}''" and body = "''{}''"])
      (simp add: delivery_def ne sign_not_Nil)
  ultimately show ?thesis by (intro conjI)
qed

text \<open>
  C10. The repository check reads the second component of the event's full name
  without looking at the number of components: when the configuration has the form
  \<open>owner/name\<close> and the full name of the event's repository is that owner with no
  \<open>/\<close> in it, the handler panics with an index out of range, right after parsing.
\<close>

theorem processHook_repo_index_out_of_range:
  assumes "authenticPullRequest lib cfg req payload"
    and "Repo payload = Some \<lparr>FullName = Some owner\<rparr>"
    and "CHR ''/'' \<notin> set owner"
    and "repoOrOrgName cfg = owner @ ''/'' @ name"
  shows "processHook lib cfg client order1 order2 req w =
           Some (Panicked IndexOutOfRange, [ParseWebHookCall], w)"
proof -
  have "Split owner (CHR ''/'') = [owner]"
    using assms(3) by (rule Split_no_sep)
  moreover have "Split (repoOrOrgName cfg) (CHR ''/'') = owner # Split name (CHR ''/'')"
    using assms(3,4) by (simp add: Split_append)
  moreover have "Split name (CHR ''/'') \<noteq> []" by (rule Split_not_Nil)
  ultimately have "processPayload cfg client order1 order2 payload w =
      Some (Panicked IndexOutOfRange, [], w)"
    by (simp add: processPayload_def assms(2) index_def Let_def)
  then show ?thesis
    by (simp add: processHook_authentic [OF assms(1)] emit_def)
qed

theorem processHook_repo_index_out_of_range_witness:
  "authenticPullRequest (exampleLibrary (examplePayload ''acme'' ''opened'')) exampleConfig
     (exampleDelivery ''acme'' ''opened'') (examplePayload ''acme'' ''opened'') \<and>
   repoOrOrgName exampleConfig = ''acme/widget'' \<and>
   processHook (exampleLibrary (examplePayload ''acme'' ''opened'')) exampleConfig
     (github twoPages) exampleOrder (rev exampleOrder) (exampleDelivery ''acme'' ''opened'') noLabels =
   Some (Panicked IndexOutOfRange, [ParseWebHookCall], noLabels)"
proof -
  have r: "Repo (examplePayload ''acme'' ''opened'') = Some \<lparr>FullName = Some ''acme''\<rparr>"
    by (simp add: examplePayload_def)
  have s: "CHR ''/'' \<notin> set ''acme''" by simp
  have c: "repoOrOrgName exampleConfig = ''acme'' @ ''/'' @ ''widget''"
    by (simp add: exampleConfig_def)
  show ?thesis
    using processHook_repo_index_out_of_range [OF exampleDelivery_authentic r s c,
        of "github twoPages" exampleOrder "rev exampleOrder" noLabels]
      exampleDelivery_authentic [of "''acme''" "''opened''"] c
    by simp
qed




text \<open>
  C8. Against an upstream that keeps the labels and answers the removal of an absent
  label with 404, running \<open>updateLabel\<close> twice in a row for the same pull request and
  the same non-negative count (each run visiting the table in any order) succeeds
  both times with the same label; the second run leaves the labels as the first left
  them, exactly one of them is a size label, and removing any other size label then
  answers 404 with an error, which the second run passes over.
\<close>

theorem updateLabel_twice:
  assumes "0 \<le> sint changes"
    and "rangeOrder defaultSizes order1" and "rangeOrder defaultSizes order2"
    and "rangeOrder defaultSizes order3" and "rangeOrder defaultSizes order4"
  shows "\<exists>k tr1 tr2 w1.
           matches defaultSizes k changes \<and>
           updateLabel (github listing) order1 order2 owner repo number changes w =
             (Returned (k, None), tr1, w1) \<and>
           updateLabel (github listing) order3 order4 owner repo number changes w1 =
             (Returned (k, None), tr2, w1) \<and>
           w1 (owner, repo, number) \<inter> dom defaultSizes = {k} \<and>
           (\<forall>k'\<in>dom defaultSizes - {k}.
              RemoveLabelForIssue (github listing) owner repo number k' w1 =
                ((Some \<lparr>StatusCode = 404, Status = ''404 Not Found'', NextPage = 0\<rparr>,
                  Some (Error ''404 Not Found'')), w1))"
proof -
  from matches_unique [OF assms(1)] obtain k where k: "matches defaultSizes k changes" by blast
  let ?pr = "(owner, repo, number)"
  let ?w1 = "w(?pr := insert k (w ?pr - dom defaultSizes))"
  have kd: "k \<in> dom defaultSizes" using k by (rule matches_dom)
  have first: "updateLabel (github listing) order1 order2 owner repo number changes w =
     (Returned (k, None),
      map (RemoveLabelCall owner repo number) order1 @ [AddLabelsCall owner repo number [k]], ?w1)"
    by (rule updateLabel_github [OF assms(2,3,1) k])
  have again: "?w1(?pr := insert k (?w1 ?pr - dom defaultSizes)) = ?w1"
    by (auto simp: fun_eq_iff)
  have second: "updateLabel (github listing) order3 order4 owner repo number changes ?w1 =
     (Returned (k, None),
      map (RemoveLabelCall owner repo number) order3 @ [AddLabelsCall owner repo number [k]], ?w1)"
    using updateLabel_github [OF assms(4,5,1) k, of listing owner repo number ?w1]
    by (simp only: again)
  have one: "?w1 ?pr \<inter> dom defaultSizes = {k}" using kd by auto
  have absent: "RemoveLabelForIssue (github listing) owner repo number k' ?w1 =
                ((Some \<lparr>StatusCode = 404, Status = ''404 Not Found'', NextPage = 0\<rparr>,
                  Some (Error ''404 Not Found'')), ?w1)"
    if "k' \<in> dom defaultSizes - {k}" for k'
    by (rule github_remove_absent) (use that in auto)
  from k first second one absent show ?thesis by blast
qed

theorem updateLabel_twice_witness:
  "0 \<le> sint (47 :: go_int) \<and> rangeOrder defaultSizes exampleOrder \<and>
   rangeOrder defaultSizes (rev exampleOrder) \<and>
   updateLabel (github twoPages) exampleOrder (rev exampleOrder) ''acme'' ''widget'' 7 47 exampleLabels =
     (Returned (''size/M'', None),
      map (RemoveLabelCall ''acme'' ''widget'' 7) exampleOrder @
        [AddLabelsCall ''acme'' ''widget'' 7 [''size/M'']],
      noLabels((''acme'', ''widget'', 7) := {''bug'', ''size/M''})) \<and>
   (\<exists>k tr1 tr2 w1.
      matches defaultSizes k 47 \<and>
      updateLabel (github twoPages) exampleOrder (rev exampleOrder) ''acme'' ''widget'' 7 47 exampleLabels =
        (Returned (k, None), tr1, w1) \<and>
      updateLabel (github twoPages) (rev exampleOrder) exampleOrder ''acme'' ''widget'' 7 47 w1 =
        (Returned (k, None), tr2, w1) \<and>
      w1 (''acme'', ''widget'', 7) \<inter> dom defaultSizes = {k} \<and>
      (\<forall>k'\<in>dom defaultSizes - {k}.
         RemoveLabelForIssue (github twoPages) ''acme'' ''widget'' 7 k' w1 =
           ((Some \<lparr>StatusCode = 404, Status = ''404 Not Found'', NextPage = 0\<rparr>,
             Some (Error ''404 Not Found'')), w1)))"
proof -
  have p: "0 \<le> sint (47 :: go_int)" by simp
  have d: "{''bug'', ''size/XS''} - dom defaultSizes = {''bug''}"
    by (auto simp: defaultSizes_def)
  have v: "updateLabel (github twoPages) exampleOrder (rev exampleOrder) ''acme'' ''widget'' 7 47 exampleLabels =
     (Returned (''size/M'', None),
      map (RemoveLabelCall ''acme'' ''widget'' 7) exampleOrder @
        [AddLabelsCall ''acme'' ''widget'' 7 [''size/M'']],
      noLabels((''acme'', ''widget'', 7) := {''bug'', ''size/M''}))"
    using updateLabel_github [OF exampleOrder_rangeOrder rev_exampleOrder_rangeOrder p matches_47,
        of twoPages "''acme''" "''widget''" 7 exampleLabels]
    by (simp add: exampleLabels_def d insert_commute)
  note t = updateLabel_twice [OF p exampleOrder_rangeOrder rev_exampleOrder_rangeOrder
      rev_exampleOrder_rangeOrder exampleOrder_rangeOrder,
      of twoPages "''acme''" "''widget''" 7 exampleLabels]
  from p exampleOrder_rangeOrder rev_exampleOrder_rangeOrder v t show ?thesis
    by (intro conjI)
qed

text \<open>
  C9. In the removal loop the status code of the response is read before the error
  is looked at. A removal call that returns no response (with or without an error)
  makes \<open>updateLabel\<close> panic with a nil dereference at that call; and when the
  response has status 404, the error returned with it is never looked at and the loop
  goes on.
\<close>

theorem removal_without_response_panics:
  "(RemoveLabelForIssue client owner repo number k w = ((None, err), w') \<longrightarrow>
      removeLoop client owner repo number (k # ks) w =
        (Panicked NilPointerDereference, [RemoveLabelCall owner repo number k], w') \<and>
      updateLabel client (k # ks) order2 owner repo number changes w =
        (Panicked NilPointerDereference, [RemoveLabelCall owner repo number k], w')) \<and>
   (RemoveLabelForIssue client owner repo number k w = ((Some r, Some e), w') \<and>
    StatusCode r = 404 \<longrightarrow>
      removeLoop client owner repo number (k # ks) w =
        emit (RemoveLabelCall owner repo number k) (removeLoop client owner repo number ks w'))"
  by (simp add: updateLabel_def)


theorem removal_without_response_panics_witness:
  "RemoveLabelForIssue removalDown ''acme'' ''widget'' 7 ''size/XS'' noLabels =
     ((None, Some (Error ''dial tcp: connection refused'')), noLabels) \<and>
   updateLabel removalDown
     (''size/XS'' # [''size/S'', ''size/M'', ''size/L'', ''size/XL'', ''size/XXL''])
     (rev exampleOrder) ''acme'' ''widget'' 7 47 noLabels =
     (Panicked NilPointerDereference, [RemoveLabelCall ''acme'' ''widget'' 7 ''size/XS''], noLabels) \<and>
   RemoveLabelForIssue (github twoPages) ''acme'' ''widget'' 7 ''size/XS'' noLabels =
     ((Some \<lparr>StatusCode = 404, Status = ''404 Not Found'', NextPage = 0\<rparr>,
       Some (Error ''404 Not Found'')), noLabels) \<and>
   removeLoop (github twoPages) ''acme'' ''widget'' 7
     (''size/XS'' # [''size/S'', ''size/M'', ''size/L'', ''size/XL'', ''size/XXL'']) noLabels =
     emit (RemoveLabelCall ''acme'' ''widget'' 7 ''size/XS'')
       (removeLoop (github twoPages) ''acme'' ''widget'' 7
          [''size/S'', ''size/M'', ''size/L'', ''size/XL'', ''size/XXL''] noLabels)"
proof -
  have a: "RemoveLabelForIssue removalDown ''acme'' ''widget'' 7 ''size/XS'' noLabels =
     ((None, Some (Error ''dial tcp: connection refused'')), noLabels)"
    by (simp add: removalDown_def)
  have b: "RemoveLabelForIssue (github twoPages) ''acme'' ''widget'' 7 ''size/XS'' noLabels =
     ((Some \<lparr>StatusCode = 404, Status = ''404 Not Found'', NextPage = 0\<rparr>,
       Some (Error ''404 Not Found'')), noLabels)"
    by (simp add: github_def noLabels_def)
  have c: "updateLabel removalDown
     (''size/XS'' # [''size/S'', ''size/M'', ''size/L'', ''size/XL'', ''size/XXL''])
     (rev exampleOrder) ''acme'' ''widget'' 7 47 noLabels =
     (Panicked NilPointerDereference, [RemoveLabelCall ''acme'' ''widget'' 7 ''size/XS''], noLabels)"
    by (rule removal_without_response_panics [THEN conjunct1, rule_format, THEN conjunct2]) (rule a)
  have e: "removeLoop (github twoPages) ''acme'' ''widget'' 7
     (''size/XS'' # [''size/S'', ''size/M'', ''size/L'', ''size/XL'', ''size/XXL'']) noLabels =
     emit (RemoveLabelCall ''acme'' ''widget'' 7 ''size/XS'')
       (removeLoop (github twoPages) ''acme'' ''widget'' 7
          [''size/S'', ''size/M'', ''size/L'', ''size/XL'', ''size/XXL''] noLabels)"
    by (rule removal_without_response_panics [THEN conjunct2, rule_format,
          where r = "\<lparr>StatusCode = 404, Status = ''404 Not Found'', NextPage = 0\<rparr>"
            and e = "Error ''404 Not Found''"])
      (simp add: b)
  from a c b e show ?thesis by (intro conjI)
qed

text \<open>
  C1, as the code has it. For an authenticated \<open>pull_request\<close> event for the configured
  repository with one of the three actions: when \<open>readPaginatedFileChanges\<close> returns
  an error, the handler answers 400 with \<open>Error reading PR changes\<close> and makes no
  further call; when the listing succeeds and \<open>updateLabel\<close> returns an error, the
  handler answers 500.
\<close>

theorem upstream_error_status:
  assumes "authenticPullRequest lib cfg req payload"
    and "Repo payload = Some \<lparr>FullName = Some (owner @ ''/'' @ name)\<rparr>"
    and "configuredFor cfg owner name"
    and "Action payload = Some action"
    and "action \<in> {''opened'', ''synchronize'', ''reopened''}"
    and "Number payload = Some number"
  shows "(readPaginatedFileChanges client owner name number w =
            Some (Returned (changes, Some e), tr, w1) \<longrightarrow>
          processHook lib cfg client order1 order2 req w =
            Some (Returned (JSON 400 ''Error reading PR changes''), ParseWebHookCall # tr, w1)) \<and>
         (readPaginatedFileChanges client owner name number w =
            Some (Returned (changes, None), tr, w1) \<and>
          updateLabel client order1 order2 owner name number changes w1 =
            (Returned (label, Some e), tr2, w2) \<longrightarrow>
          processHook lib cfg client order1 order2 req w =
            Some (Returned (JSON 500 ''Error processing request (1)''),
                  ParseWebHookCall # tr @ tr2, w2))"
proof -
  note p = processPayload_configured [OF assms(2,3,4), of client order1 order2 w]
  have h: "processHook lib cfg client order1 order2 req w =
      map_option (emit ParseWebHookCall)
        (sizePullRequest client order1 order2 [owner, name] payload w)"
    using assms(5) by (auto simp: processHook_authentic [OF assms(1)] p)
  show ?thesis
    by (simp add: h sizePullRequest_def index_def assms(6) emit_def)
qed


text \<open>
  The claim as it was written gives 500 for both; a listing that fails in transport
  is answered 400.
\<close>

theorem processHook_listing_error_400:
  "processHook (exampleLibrary (examplePayload ''acme/widget'' ''opened'')) exampleConfig
     (github listingDown) exampleOrder (rev exampleOrder)
     (exampleDelivery ''acme/widget'' ''opened'') noLabels =
   Some (Returned (JSON 400 ''Error reading PR changes''),
     [ParseWebHookCall, ListFilesCall ''acme'' ''widget'' 7 \<lparr>Page = 0, PerPage = 100\<rparr>],
     noLabels)"
proof -
  have n: "Number (examplePayload ''acme/widget'' ''opened'') = Some 7"
    by (simp add: examplePayload_def)
  show ?thesis
    by (subst example_processHook)
      (simp add: sizePullRequest_def index_def n read_listingDown emit_def)
qed

theorem upstream_error_status_witness:
  "authenticPullRequest (exampleLibrary (examplePayload ''acme/widget'' ''opened'')) exampleConfig
     (exampleDelivery ''acme/widget'' ''opened'') (examplePayload ''acme/widget'' ''opened'') \<and>
   configuredFor exampleConfig ''acme'' ''widget'' \<and>
   processHook (exampleLibrary (examplePayload ''acme/widget'' ''opened'')) exampleConfig
     (github listingDown) exampleOrder (rev exampleOrder)
     (exampleDelivery ''acme/widget'' ''opened'') noLabels =
   Some (Returned (JSON 400 ''Error reading PR changes''),
     ParseWebHookCall # [ListFilesCall ''acme'' ''widget'' 7 \<lparr>Page = 0, PerPage = 100\<rparr>],
     noLabels) \<and>
   processHook (exampleLibrary (examplePayload ''acme/widget'' ''opened'')) exampleConfig
     addDenied exampleOrder (rev exampleOrder)
     (exampleDelivery ''acme/widget'' ''opened'') noLabels =
   Some (Returned (JSON 500 ''Error processing request (1)''),
     ParseWebHookCall #
       [ListFilesCall ''acme'' ''widget'' 7 \<lparr>Page = 0, PerPage = 100\<rparr>,
        ListFilesCall ''acme'' ''widget'' 7 \<lparr>Page = 2, PerPage = 100\<rparr>] @
       map (RemoveLabelCall ''acme'' ''widget'' 7) exampleOrder @
         [AddLabelsCall ''acme'' ''widget'' 7 [''size/M'']],
     noLabels)"
proof -
  have r: "Repo (examplePayload ''acme/widget'' ''opened'') =
      Some \<lparr>FullName = Some (''acme'' @ ''/'' @ ''widget'')\<rparr>"
    and a: "Action (examplePayload ''acme/widget'' ''opened'') = Some ''opened''"
    and n: "Number (examplePayload ''acme/widget'' ''opened'') = Some 7"
    by (simp_all add: examplePayload_def)
  have i: "''opened'' \<in> {''opened'', ''synchronize'', ''reopened''}" by simp
  note t = upstream_error_status [OF exampleDelivery_authentic r exampleConfig_configuredFor a i n]
  have one: "processHook (exampleLibrary (examplePayload ''acme/widget'' ''opened'')) exampleConfig
     (github listingDown) exampleOrder (rev exampleOrder)
     (exampleDelivery ''acme/widget'' ''opened'') noLabels =
   Some (Returned (JSON 400 ''Error reading PR changes''),
     ParseWebHookCall # [ListFilesCall ''acme'' ''widget'' 7 \<lparr>Page = 0, PerPage = 100\<rparr>],
     noLabels)"
    by (rule t [THEN conjunct1, rule_format]) (rule read_listingDown)
  have two: "processHook (exampleLibrary (examplePayload ''acme/widget'' ''opened'')) exampleConfig
     addDenied exampleOrder (rev exampleOrder)
     (exampleDelivery ''acme/widget'' ''opened'') noLabels =
   Some (Returned (JSON 500 ''Error processing request (1)''),
     ParseWebHookCall #
       [ListFilesCall ''acme'' ''widget'' 7 \<lparr>Page = 0, PerPage = 100\<rparr>,
        ListFilesCall ''acme'' ''widget'' 7 \<lparr>Page = 2, PerPage = 100\<rparr>] @
       map (RemoveLabelCall ''acme'' ''widget'' 7) exampleOrder @
         [AddLabelsCall ''acme'' ''widget'' 7 [''size/M'']],
     noLabels)"
    by (rule t [THEN conjunct2, rule_format, where changes = 47 and ?w1.0 = noLabels
          and label = "''size/M''" and e = "Error ''403 Forbidden''"])
      (intro conjI read_addDenied updateLabel_addDenied)
  from exampleDelivery_authentic exampleConfig_configuredFor one two show ?thesis
    by (intro conjI)
qed

end
